theory Spec2Isabelle
  imports Main
begin

section \<open>Python outcomes, log lines and observable events\<close>

text \<open>
  The orchestrator (\<^verbatim>\<open>main_base_sigitm_lp_fsp.py\<close>) and the spreadsheet handler
  (\<^verbatim>\<open>src/process_data_sigitm.py\<close>) are embedded as state-passing functions. Everything
  a \<^verbatim>\<open>try\<close> block can catch with \<^verbatim>\<open>except Exception\<close> is a value of \<open>exn\<close>;
  \<^verbatim>\<open>SystemExit\<close>, which \<^verbatim>\<open>sys.exit\<close> raises and which is not an \<^verbatim>\<open>Exception\<close>, is an
  outcome of its own, so that no handler of the model catches it.
\<close>

datatype exn =
    FileNotFoundError
  | TimeoutError
  | ConnectionError
  | RuntimeError
  | OverflowError
  | TypeError
  | OtherError string

datatype 'a outcome = Returned 'a | Raised exn | SystemExit nat

datatype level = Info | Warning | Error | Critical

text \<open>A \<^verbatim>\<open>Path\<close>: the directory it lies in and its file name.\<close>

type_synonym path = "string \<times> string"

text \<open>A pandas \<^verbatim>\<open>DataFrame\<close>, as the list of its rows.\<close>

type_synonym dataframe = "string list list"

text \<open>The text of \<^verbatim>\<open>FileProcessingResult.message\<close>, one constructor per place that builds it.\<close>

datatype result_message =
    Msg_Processed
  | Msg_Process_Error exn
  | Msg_Most_Recent_Error exn

text \<open>One constructor per logging call of the two source files, with the interpolated values.\<close>

datatype log_text =
    Vpn_Established string
  | Vpn_Failed string
  | Vpn_Timeout
  | Vpn_Unexpected exn
  | Extract_Start
  | Transform_Failed result_message
  | Transform_Ok nat
  | Db_Connected string
  | Table_Created string
  | Load_Done string
  | Load_Critical exn
  | Pipeline_Start
  | Attempt_No nat nat
  | Pipeline_Done string
  | Attempt_Failed nat exn
  | Waiting nat
  | Definitive_Failure
  | Dir_Not_Found string
  | Dir_Created string
  | No_File_With_Prefix string
  | Excel_Processed
  | Processing_Target string
  | Most_Recent_Error exn
  | File_Removed "path option"
  | Remove_Error exn

text \<open>Calls into collaborators (classes of modules that are not part of the two files).\<close>

datatype call =
    New_Manager
  | Connect_With_Fallback
  | New_Scraper
  | Scraper_Execute
  | Scraper_Close
  | Mkdir string
  | Read_Excel path
  | Unlink path
  | Db_Open
  | Table_Exists
  | Create_Table
  | Bulk_Insert
  | Db_Close

text \<open>
  What a run leaves behind, in order: log lines, collaborator calls (with \<open>True\<close> when the
  call returned normally and \<open>False\<close> when it raised), the time spent awaiting the VPN
  connector, a call whose worker thread was left behind at the deadline, and
  \<^verbatim>\<open>asyncio.sleep\<close>.
\<close>

datatype event =
    Log level log_text
  | Call call bool
  | Awaited nat
  | Abandoned call
  | Sleep nat

text \<open>What the stages read and change on disk: the existing directories, and the files with their modification times.\<close>

record state =
  dirs :: "string list"
  files :: "(path \<times> int) list"

text \<open>A computation: from the state to its outcome, the state it leaves and the events it adds.\<close>

type_synonym 'a io = "state \<Rightarrow> 'a outcome \<times> state \<times> event list"

definition ret_io :: "'a \<Rightarrow> 'a io" where
  "ret_io x s = (Returned x, s, [])"

definition raise_io :: "exn \<Rightarrow> 'a io" where
  "raise_io e s = (Raised e, s, [])"

definition sys_exit :: "nat \<Rightarrow> 'a io" where
  "sys_exit c s = (SystemExit c, s, [])"

fun after :: "event list \<Rightarrow> 'a outcome \<times> state \<times> event list \<Rightarrow> 'a outcome \<times> state \<times> event list" where
  "after xs (r, s, ys) = (r, s, xs @ ys)"

definition bind_io :: "'a io \<Rightarrow> ('a \<Rightarrow> 'b io) \<Rightarrow> 'b io" where
  "bind_io m f s =
     (case m s of
        (Returned x, s', xs) \<Rightarrow> after xs (f x s')
      | (Raised e, s', xs) \<Rightarrow> (Raised e, s', xs)
      | (SystemExit c, s', xs) \<Rightarrow> (SystemExit c, s', xs))"

definition emit :: "event \<Rightarrow> unit io" where
  "emit ev s = (Returned (), s, [ev])"

definition logger :: "level \<Rightarrow> log_text \<Rightarrow> unit io" where
  "logger l t = emit (Log l t)"

text \<open>A collaborator call whose result the environment fixes: \<open>Inl\<close> is the exception it raises.\<close>

definition invoke :: "call \<Rightarrow> exn + 'a \<Rightarrow> 'a io" where
  "invoke c r =
     (case r of
        Inl e \<Rightarrow> bind_io (emit (Call c False)) (\<lambda>_. raise_io e)
      | Inr x \<Rightarrow> bind_io (emit (Call c True)) (\<lambda>_. ret_io x))"

text \<open>\<^verbatim>\<open>try: m  except Exception as e: h e\<close>. \<^verbatim>\<open>SystemExit\<close> passes through.\<close>

definition try_except :: "'a io \<Rightarrow> (exn \<Rightarrow> 'a io) \<Rightarrow> 'a io" where
  "try_except m h s =
     (case m s of
        (Raised e, s', xs) \<Rightarrow> after xs (h e s')
      | other \<Rightarrow> other)"

text \<open>
  \<^verbatim>\<open>try: m  finally: f\<close>. The \<^verbatim>\<open>finally\<close> block runs whatever \<open>m\<close> did; when it
  raises itself, its exception replaces the outcome of \<open>m\<close>.
\<close>

definition try_finally :: "'a io \<Rightarrow> unit io \<Rightarrow> 'a io" where
  "try_finally m f s =
     (case m s of (r, s', xs) \<Rightarrow>
        (case f s' of
           (Returned _, s'', ys) \<Rightarrow> (r, s'', xs @ ys)
         | (Raised e, s'', ys) \<Rightarrow> (Raised e, s'', xs @ ys)
         | (SystemExit c, s'', ys) \<Rightarrow> (SystemExit c, s'', xs @ ys)))"

text \<open>The three parts of a run.\<close>

definition outcome_of :: "'a io \<Rightarrow> state \<Rightarrow> 'a outcome" where
  "outcome_of m s = fst (m s)"

definition state_after :: "'a io \<Rightarrow> state \<Rightarrow> state" where
  "state_after m s = fst (snd (m s))"

definition events :: "'a io \<Rightarrow> state \<Rightarrow> event list" where
  "events m s = snd (snd (m s))"

section \<open>Configuration and environment\<close>

text \<open>
  \<^verbatim>\<open>MainOrchestrator.__init__\<close> sets \<^verbatim>\<open>max_retries = 3\<close> and \<^verbatim>\<open>retry_delay = 10\<close>.
  \<^verbatim>\<open>VPNConfig\<close>, \<^verbatim>\<open>PostgreSQLConfig\<close> and \<^verbatim>\<open>table_name\<close> come from modules outside the two
  files; the fields the orchestrator reads are parameters.
\<close>

record config =
  max_retries :: nat
  retry_delay :: nat
  vpn_switch_timeout :: nat
  dbname :: string
  table_name :: string

definition default_config :: "nat \<Rightarrow> string \<Rightarrow> string \<Rightarrow> config" where
  "default_config t db tbl =
     \<lparr>max_retries = 3, retry_delay = 10, vpn_switch_timeout = t, dbname = db, table_name = tbl\<rparr>"

text \<open>
  A blocking call run in a worker thread: it finishes after some time with a result, or
  it never comes back.
\<close>

datatype 'a blocking = Finishes nat "exn + 'a" | Hangs

text \<open>
  What the collaborators do during one attempt. Each is called at most once per attempt,
  so one outcome per collaborator describes any behaviour.
  \<open>excel p\<close> stands for \<^verbatim>\<open>self._process_dataframe(pd.read_excel(p, engine='calamine'))\<close>,
  \<open>db_open\<close> for constructing \<^verbatim>\<open>PostgreSQLHandler\<close> and entering the \<^verbatim>\<open>with\<close> block,
  \<open>db_close\<close> for leaving it, \<open>elapsed\<close> for
  \<^verbatim>\<open>int(time.perf_counter() - start_time)\<close> as read during this attempt.
\<close>

record env =
  new_manager :: "exn + unit"
  connect_with_fallback :: "(bool \<times> string) blocking"
  new_scraper :: "exn + unit"
  execute_process_sigitm :: "exn + (bool \<times> path option)"
  scraper_close :: "exn + unit"
  user_downloads_dir :: string
  mkdir_fault :: "exn option"
  excel :: "path \<Rightarrow> exn + dataframe"
  unlink_fault :: "path \<Rightarrow> exn option"
  db_open :: "exn + unit"
  table_exists :: "exn + bool"
  create_table_from_dataframe :: "exn + unit"
  bulk_insert_dataframe :: "exn + unit"
  db_close :: "exn + unit"
  elapsed :: nat

section \<open>The VPN stage\<close>

text \<open>
  \<^verbatim>\<open>asyncio.wait_for(asyncio.to_thread(f), timeout=t)\<close>: the result of \<open>f\<close> when it is
  there within \<open>t\<close>; otherwise the await ends at \<open>t\<close> with \<^verbatim>\<open>TimeoutError\<close> (the
  built-in one, as \<^verbatim>\<open>asyncio\<close> raises it from Python 3.11 on) and the worker thread is
  left to itself. The time spent is an event.
\<close>

definition timed_out :: "call \<Rightarrow> nat \<Rightarrow> 'a io" where
  "timed_out c t =
     bind_io (emit (Awaited t)) (\<lambda>_.
     bind_io (emit (Abandoned c)) (\<lambda>_.
     raise_io TimeoutError))"

definition wait_for :: "call \<Rightarrow> 'a blocking \<Rightarrow> nat \<Rightarrow> 'a io" where
  "wait_for c b t =
     (case b of
        Finishes d r \<Rightarrow>
          if d \<le> t then bind_io (emit (Awaited d)) (\<lambda>_. invoke c r)
          else timed_out c t
      | Hangs \<Rightarrow> timed_out c t)"

text \<open>
  The function is annotated \<^verbatim>\<open>-> bool\<close>, but its \<^verbatim>\<open>else\<close> branch ends without a
  \<^verbatim>\<open>return\<close>: the value is then Python's \<^verbatim>\<open>None\<close>, here \<open>None\<close>; \<open>Some b\<close> is the
  bool \<open>b\<close>.
\<close>

definition truthy :: "bool option \<Rightarrow> bool" where
  "truthy v = (case v of None \<Rightarrow> False | Some b \<Rightarrow> b)"

definition manage_vpn_connection :: "config \<Rightarrow> env \<Rightarrow> bool option io" where
  "manage_vpn_connection cfg e =
     bind_io (invoke New_Manager (new_manager e)) (\<lambda>_.
     try_except
       (bind_io (wait_for Connect_With_Fallback (connect_with_fallback e)
                   (vpn_switch_timeout cfg + 10)) (\<lambda>(status, message).
          if status then
            bind_io (logger Info (Vpn_Established message)) (\<lambda>_. ret_io (Some True))
          else
            bind_io (logger Error (Vpn_Failed message)) (\<lambda>_. ret_io None)))
       (\<lambda>ex.
          if ex = TimeoutError then
            bind_io (logger Critical Vpn_Timeout) (\<lambda>_. ret_io (Some False))
          else
            bind_io (logger Critical (Vpn_Unexpected ex)) (\<lambda>_. ret_io (Some False))))"

section \<open>The extraction stage\<close>

definition extract_step :: "env \<Rightarrow> (bool \<times> path option) io" where
  "extract_step e =
     bind_io (invoke New_Scraper (new_scraper e)) (\<lambda>_.
     try_finally
       (bind_io (logger Info Extract_Start) (\<lambda>_.
          invoke Scraper_Execute (execute_process_sigitm e)))
       (invoke Scraper_Close (scraper_close e)))"

section \<open>The spreadsheet handler\<close>

record FileProcessingResult =
  success :: bool
  message :: result_message
  dataframe :: "dataframe option"

record ExcelFileHandler =
  directory :: string
  prefix :: string

definition PREFIX :: string where
  "PREFIX = ''CONSULTA_TLP_PCP_LP_FSP_CS''"

text \<open>
  \<^verbatim>\<open>ExcelFileHandler.__init__\<close>: the directory defaults to the user's download directory
  (an empty or missing argument is falsy) and is created when it does not exist.
\<close>

definition new_ExcelFileHandler :: "env \<Rightarrow> string option \<Rightarrow> string \<Rightarrow> ExcelFileHandler io" where
  "new_ExcelFileHandler e dir_arg pfx =
     (let d = (case dir_arg of None \<Rightarrow> user_downloads_dir e
               | Some x \<Rightarrow> if x = [] then user_downloads_dir e else x);
          h = \<lparr>directory = d, prefix = pfx\<rparr>
      in (\<lambda>s.
        if d \<notin> set (dirs s) then
          bind_io (logger Warning (Dir_Not_Found d)) (\<lambda>_.
          bind_io (invoke (Mkdir d)
                     (case mkdir_fault e of Some ex \<Rightarrow> Inl ex | None \<Rightarrow> Inr ())) (\<lambda>_.
          bind_io (\<lambda>s'. (Returned (), s'\<lparr>dirs := d # dirs s'\<rparr>, [])) (\<lambda>_.
          bind_io (logger Info (Dir_Created d)) (\<lambda>_. ret_io h)))) s
        else ret_io h s))"

text \<open>\<^verbatim>\<open>str.startswith\<close>.\<close>

definition startswith :: "string \<Rightarrow> string \<Rightarrow> bool" where
  "startswith s p = (take (length p) s = p)"

text \<open>
  \<^verbatim>\<open>list(self.directory.glob(f"{self.prefix}*"))\<close> for a prefix without pattern characters
  (the constant \<^verbatim>\<open>PREFIX\<close> has none): the entries of the directory whose names start
  with the prefix, letter case included, in the order the file system lists them.
\<close>

definition glob :: "ExcelFileHandler \<Rightarrow> (path \<times> int) list \<Rightarrow> (path \<times> int) list" where
  "glob h fs = filter (\<lambda>f. fst (fst f) = directory h \<and> startswith (snd (fst f)) (prefix h)) fs"

text \<open>
  \<^verbatim>\<open>max(files, key=...)\<close> on a list that is not empty: a later element replaces the
  best one only when its key is strictly greater.
\<close>

definition max_by_key :: "('a \<Rightarrow> int) \<Rightarrow> 'a \<Rightarrow> 'a list \<Rightarrow> 'a" where
  "max_by_key k x xs = foldl (\<lambda>best y. if k best < k y then y else best) x xs"

definition find_most_recent_file :: "ExcelFileHandler \<Rightarrow> path io" where
  "find_most_recent_file h s =
     (case glob h (files s) of
        [] \<Rightarrow> bind_io (logger Error (No_File_With_Prefix (prefix h)))
                (\<lambda>_. raise_io FileNotFoundError) s
      | f # fs \<Rightarrow> ret_io (fst (max_by_key snd f fs)) s)"

definition load_to_dataframe :: "env \<Rightarrow> path \<Rightarrow> FileProcessingResult io" where
  "load_to_dataframe e file_path =
     try_except
       (bind_io (invoke (Read_Excel file_path) (excel e file_path)) (\<lambda>processed_df.
        bind_io (logger Info Excel_Processed) (\<lambda>_.
        ret_io \<lparr>success = True, message = Msg_Processed, dataframe = Some processed_df\<rparr>)))
       (\<lambda>ex. ret_io \<lparr>success = False, message = Msg_Process_Error ex, dataframe = None\<rparr>)"

text \<open>
  A \<^verbatim>\<open>Path\<close> object is always truthy, so \<^verbatim>\<open>file_path if file_path else ...\<close> takes the
  fallback exactly when the argument is \<^verbatim>\<open>None\<close>.
\<close>

definition target_of :: "ExcelFileHandler \<Rightarrow> path option \<Rightarrow> path io" where
  "target_of h file_path =
     (case file_path of Some p \<Rightarrow> ret_io p | None \<Rightarrow> find_most_recent_file h)"

definition process_most_recent_file ::
  "ExcelFileHandler \<Rightarrow> env \<Rightarrow> path option \<Rightarrow> FileProcessingResult io" where
  "process_most_recent_file h e file_path =
     try_except
       (bind_io (target_of h file_path) (\<lambda>target_path.
        bind_io (logger Info (Processing_Target (snd target_path))) (\<lambda>_.
        load_to_dataframe e target_path)))
       (\<lambda>ex.
        bind_io (logger Error (Most_Recent_Error ex)) (\<lambda>_.
        ret_io \<lparr>success = False, message = Msg_Most_Recent_Error ex, dataframe = None\<rparr>))"

text \<open>
  \<^verbatim>\<open>Path.unlink\<close>: removes the entry; \<^verbatim>\<open>FileNotFoundError\<close> when there is none, and
  whatever else the operating system refuses with (\<open>unlink_fault\<close>).
\<close>

definition unlink :: "env \<Rightarrow> path \<Rightarrow> unit io" where
  "unlink e p s =
     (case unlink_fault e p of
        Some ex \<Rightarrow> invoke (Unlink p) (Inl ex) s
      | None \<Rightarrow>
          if p \<in> fst ` set (files s) then
            invoke (Unlink p) (Inr ()) (s\<lparr>files := filter (\<lambda>f. fst f \<noteq> p) (files s)\<rparr>)
          else invoke (Unlink p) (Inl FileNotFoundError) s)"

definition delete_most_recent_file :: "ExcelFileHandler \<Rightarrow> env \<Rightarrow> path option \<Rightarrow> bool io" where
  "delete_most_recent_file h e file_path =
     try_except
       (bind_io (target_of h file_path) (\<lambda>target_path.
        bind_io (unlink e target_path) (\<lambda>_.
        bind_io (logger Info (File_Removed file_path)) (\<lambda>_.
        ret_io True))))
       (\<lambda>ex. bind_io (logger Error (Remove_Error ex)) (\<lambda>_. ret_io False))"

section \<open>The load stage\<close>

text \<open>\<^verbatim>\<open>len(df)\<close>: \<^verbatim>\<open>TypeError\<close> on \<^verbatim>\<open>None\<close>.\<close>

definition py_len :: "dataframe option \<Rightarrow> nat io" where
  "py_len df = (case df of None \<Rightarrow> raise_io TypeError | Some rows \<Rightarrow> ret_io (length rows))"

text \<open>
  \<^verbatim>\<open>with PostgreSQLHandler(cfg) as db: body\<close>. The handler's class is not in the two
  files; leaving the block calls its exit routine on every path, and an exception of
  the body is not swallowed there.
\<close>

definition with_db :: "env \<Rightarrow> 'a io \<Rightarrow> 'a io" where
  "with_db e body =
     bind_io (invoke Db_Open (db_open e)) (\<lambda>_.
     try_finally body (invoke Db_Close (db_close e)))"

text \<open>The body of the \<^verbatim>\<open>with\<close> block of \<^verbatim>\<open>_load_step\<close> (source lines 78 to 89).\<close>

definition persist :: "config \<Rightarrow> env \<Rightarrow> ExcelFileHandler \<Rightarrow> path option \<Rightarrow> bool io" where
  "persist cfg e handler file_path =
     bind_io (logger Info (Db_Connected (dbname cfg))) (\<lambda>_.
     bind_io (invoke Table_Exists (table_exists e)) (\<lambda>ex.
     bind_io (if \<not> ex then
                bind_io (invoke Create_Table (create_table_from_dataframe e)) (\<lambda>_.
                logger Info (Table_Created (table_name cfg)))
              else ret_io ()) (\<lambda>_.
     bind_io (invoke Bulk_Insert (bulk_insert_dataframe e)) (\<lambda>_.
     bind_io (logger Info (Load_Done (table_name cfg))) (\<lambda>_.
     bind_io (delete_most_recent_file handler e file_path) (\<lambda>_.
     ret_io True))))))"

text \<open>The body of the \<^verbatim>\<open>try\<close> block of \<^verbatim>\<open>_load_step\<close> (source lines 63 to 89).\<close>

definition load_body :: "config \<Rightarrow> env \<Rightarrow> path option \<Rightarrow> bool io" where
  "load_body cfg e file_path =
     bind_io (new_ExcelFileHandler e None PREFIX) (\<lambda>handler.
     bind_io (process_most_recent_file handler e file_path) (\<lambda>result.
     if \<not> success result then
       bind_io (logger Error (Transform_Failed (message result))) (\<lambda>_. ret_io False)
     else
       bind_io (py_len (dataframe result)) (\<lambda>n.
       bind_io (logger Info (Transform_Ok n)) (\<lambda>_.
       with_db e (persist cfg e handler file_path)))))"

definition load_step :: "config \<Rightarrow> env \<Rightarrow> path option \<Rightarrow> bool io" where
  "load_step cfg e file_path =
     try_except (load_body cfg e file_path)
       (\<lambda>ex. bind_io (logger Error (Load_Critical ex)) (\<lambda>_. ret_io False))"

section \<open>The orchestrator\<close>

text \<open>Decimal text of a number (\<^verbatim>\<open>%d\<close>), and with at least two digits (\<^verbatim>\<open>%02d\<close>).\<close>

definition digit_char :: "nat \<Rightarrow> char" where
  "digit_char d = ''0123456789'' ! (d mod 10)"

fun str_nat :: "nat \<Rightarrow> string" where
  "str_nat n = (if n < 10 then [digit_char n] else str_nat (n div 10) @ [digit_char (n mod 10)])"

declare str_nat.simps [simp del]

definition fmt02 :: "nat \<Rightarrow> string" where
  "fmt02 n = (let s = str_nat n in replicate (2 - length s) (CHR ''0'') @ s)"

text \<open>
  \<^verbatim>\<open>timedelta(seconds=n)\<close> for a whole number of seconds that is not negative (the clock
  is monotonic): \<^verbatim>\<open>OverflowError\<close> beyond 999999999 days. \<^verbatim>\<open>str\<close> of it follows
  \<^verbatim>\<open>timedelta.__str__\<close>: \<^verbatim>\<open>"%d:%02d:%02d"\<close>, after \<^verbatim>\<open>"%d day%s, "\<close> when the days are
  not zero.
\<close>

definition timedelta :: "nat \<Rightarrow> nat io" where
  "timedelta n = (if 999999999 < n div 86400 then raise_io OverflowError else ret_io n)"

definition str_timedelta :: "nat \<Rightarrow> string" where
  "str_timedelta n =
     (let days = n div 86400; seconds = n mod 86400;
          mm = seconds div 60; ss = seconds mod 60;
          hh = mm div 60; mm = mm mod 60;
          s = str_nat hh @ '':'' @ fmt02 mm @ '':'' @ fmt02 ss
      in if days \<noteq> 0 then
           str_nat days @ '' day'' @ (if days \<noteq> 1 then ''s'' else []) @ '', '' @ s
         else s)"

text \<open>\<^verbatim>\<open>str.zfill\<close>: zeros on the left up to the width, after a leading sign.\<close>

definition zfill :: "nat \<Rightarrow> string \<Rightarrow> string" where
  "zfill w s =
     (if w \<le> length s then s
      else case s of
        [] \<Rightarrow> replicate w (CHR ''0'')
      | c # cs \<Rightarrow>
          if c = CHR ''+'' \<or> c = CHR ''-'' then c # replicate (w - length s) (CHR ''0'') @ cs
          else replicate (w - length s) (CHR ''0'') @ s)"

definition sleep :: "nat \<Rightarrow> unit io" where
  "sleep d = emit (Sleep d)"

text \<open>
  One pass of the \<^verbatim>\<open>for\<close> loop of \<^verbatim>\<open>run_pipeline\<close> (source lines 100 to 124).
  \<^verbatim>\<open>sys.exit(0)\<close> raises \<^verbatim>\<open>SystemExit\<close> inside the \<^verbatim>\<open>try\<close>; the handler is for
  \<^verbatim>\<open>Exception\<close> and lets it through.
\<close>

definition attempt_body :: "config \<Rightarrow> env \<Rightarrow> nat \<Rightarrow> unit io" where
  "attempt_body cfg e attempt =
     bind_io (logger Info Pipeline_Start) (\<lambda>_.
     bind_io (logger Info (Attempt_No attempt (max_retries cfg))) (\<lambda>_.
     try_except
       (bind_io (manage_vpn_connection cfg e) (\<lambda>v.
        if \<not> truthy v then raise_io ConnectionError
        else
          bind_io (extract_step e) (\<lambda>(success_ext, file_path).
          if \<not> success_ext \<or> file_path = None then raise_io RuntimeError
          else
            bind_io (load_step cfg e file_path) (\<lambda>loaded.
            if loaded then
              bind_io (timedelta (elapsed e)) (\<lambda>total_time.
              bind_io (logger Info (Pipeline_Done (zfill 8 (str_timedelta total_time)))) (\<lambda>_.
              sys_exit 0))
            else ret_io ()))))
       (\<lambda>ex.
        bind_io (logger Warning (Attempt_Failed attempt ex)) (\<lambda>_.
        if attempt \<le> max_retries cfg then
          bind_io (logger Info (Waiting (retry_delay cfg))) (\<lambda>_. sleep (retry_delay cfg))
        else ret_io ()))))"

text \<open>
  The \<^verbatim>\<open>for\<close> loop over a list of attempt numbers; \<open>world a\<close> is what the collaborators
  do during attempt \<open>a\<close>.
\<close>

fun for_attempts :: "config \<Rightarrow> (nat \<Rightarrow> env) \<Rightarrow> nat list \<Rightarrow> unit io" where
  "for_attempts cfg world [] = ret_io ()"
| "for_attempts cfg world (a # as) =
     bind_io (attempt_body cfg (world a) a) (\<lambda>_. for_attempts cfg world as)"

text \<open>\<^verbatim>\<open>range(1, self.max_retries + 1)\<close>, then the lines after the loop.\<close>

definition run_pipeline :: "config \<Rightarrow> (nat \<Rightarrow> env) \<Rightarrow> unit io" where
  "run_pipeline cfg world =
     bind_io (for_attempts cfg world [1 ..< max_retries cfg + 1]) (\<lambda>_.
     bind_io (logger Critical Definitive_Failure) (\<lambda>_.
     sys_exit 1))"

text \<open>The state a process starts in: the given directories and files.\<close>

definition initial :: "string list \<Rightarrow> (path \<times> int) list \<Rightarrow> state" where
  "initial ds fs = \<lparr>dirs = ds, files = fs\<rparr>"

section \<open>Vocabulary of the properties\<close>

text \<open>Whether an event is a call of the given collaborator routine, whatever its result.\<close>

fun is_call :: "call \<Rightarrow> event \<Rightarrow> bool" where
  "is_call c (Call c' ok) = (c' = c)"
| "is_call c ev = False"

text \<open>
  The three side effects of the load stage and their place in the order: table
  creation, bulk insert, deletion of the artifact file.
\<close>

fun effect_rank :: "event \<Rightarrow> nat option" where
  "effect_rank (Call Create_Table ok) = Some 0"
| "effect_rank (Call Bulk_Insert ok) = Some 1"
| "effect_rank (Call (Unlink p) ok) = Some 2"
| "effect_rank ev = None"

fun is_unlink :: "event \<Rightarrow> bool" where
  "is_unlink (Call (Unlink p) ok) = True"
| "is_unlink ev = False"

definition before_first_unlink :: "event list \<Rightarrow> event list" where
  "before_first_unlink evs = takeWhile (\<lambda>ev. \<not> is_unlink ev) evs"

text \<open>
  The calls of the persist phase: acquiring and releasing the database session, the
  table check, table creation, bulk insert, and the deletion of a file.
\<close>

fun is_persist :: "event \<Rightarrow> bool" where
  "is_persist (Call Db_Open ok) = True"
| "is_persist (Call Table_Exists ok) = True"
| "is_persist (Call Create_Table ok) = True"
| "is_persist (Call Bulk_Insert ok) = True"
| "is_persist (Call (Unlink p) ok) = True"
| "is_persist (Call Db_Close ok) = True"
| "is_persist ev = False"

definition quiet :: "event list \<Rightarrow> bool" where
  "quiet evs = (\<not> list_ex is_persist evs)"

text \<open>The handler \<^verbatim>\<open>ExcelFileHandler()\<close> that \<^verbatim>\<open>_load_step\<close> builds, and its \<^verbatim>\<open>with\<close> block.\<close>

definition handler0 :: "env \<Rightarrow> ExcelFileHandler" where
  "handler0 e = \<lparr>directory = user_downloads_dir e, prefix = PREFIX\<rparr>"

definition persist_phase :: "config \<Rightarrow> env \<Rightarrow> path option \<Rightarrow> bool io" where
  "persist_phase cfg e fp = with_db e (persist cfg e (handler0 e) fp)"

text \<open>
  The format the specification names for the elapsed time, written from its words:
  eight characters, two digits each for hours, minutes and seconds, colons between.
\<close>

definition is_digit :: "char \<Rightarrow> bool" where
  "is_digit c = (c \<in> set ''0123456789'')"

definition is_hh_mm_ss :: "string \<Rightarrow> bool" where
  "is_hh_mm_ss t =
     (length t = 8 \<and> is_digit (t ! 0) \<and> is_digit (t ! 1) \<and> t ! 2 = CHR '':'' \<and>
      is_digit (t ! 3) \<and> is_digit (t ! 4) \<and> t ! 5 = CHR '':'' \<and>
      is_digit (t ! 6) \<and> is_digit (t ! 7))"

definition two_digits :: "nat \<Rightarrow> string" where
  "two_digits n = [digit_char (n div 10), digit_char (n mod 10)]"

definition hh_mm_ss :: "nat \<Rightarrow> string" where
  "hh_mm_ss n =
     two_digits (n div 3600) @ '':'' @ two_digits (n div 60 mod 60) @ '':'' @ two_digits (n mod 60)"

section \<open>Concrete runs\<close>

definition report :: path where
  "report = (''downloads'', ''CONSULTA_TLP_PCP_LP_FSP_CS_0411.xlsx'')"



definition disk :: state where
  "disk = initial [''downloads''] [(report, 100)]"



definition cfg0 :: config where
  "cfg0 = default_config 30 ''sigitm'' ''tb_lp_fsp''"

text \<open>Every collaborator does its work; the table does not exist yet.\<close>

definition calm :: env where
  "calm =
     \<lparr>new_manager = Inr (),
      connect_with_fallback = Finishes 2 (Inr (True, ''vpn-a'')),
      new_scraper = Inr (),
      execute_process_sigitm = Inr (True, Some report),
      scraper_close = Inr (),
      user_downloads_dir = ''downloads'',
      mkdir_fault = None,
      excel = (\<lambda>p. Inr [[''2024-01-01'', ''17'']]),
      unlink_fault = (\<lambda>p. None),
      db_open = Inr (),
      table_exists = Inr False,
      create_table_from_dataframe = Inr (),
      bulk_insert_dataframe = Inr (),
      db_close = Inr (),
      elapsed = 75\<rparr>"

definition vpn_down :: env where
  "vpn_down = calm\<lparr>connect_with_fallback := Finishes 2 (Inr (False, ''no route''))\<rparr>"

definition vpn_hangs :: env where
  "vpn_hangs = calm\<lparr>connect_with_fallback := Hangs\<rparr>"

definition scrape_raises :: env where
  "scrape_raises = calm\<lparr>execute_process_sigitm := Inl (OtherError ''selector'')\<rparr>"

definition unreadable :: env where
  "unreadable = calm\<lparr>excel := (\<lambda>p. Inl (OtherError ''corrupt''))\<rparr>"

definition db_refuses :: env where
  "db_refuses = calm\<lparr>db_open := Inl (OtherError ''refused'')\<rparr>"

definition insert_fails :: env where
  "insert_fails = calm\<lparr>bulk_insert_dataframe := Inl (OtherError ''deadlock'')\<rparr>"

definition file_locked :: env where
  "file_locked = calm\<lparr>unlink_fault := (\<lambda>p. Some (OtherError ''in use''))\<rparr>"

definition day_long :: env where
  "day_long = calm\<lparr>elapsed := 86400\<rparr>"

definition always :: "env \<Rightarrow> nat \<Rightarrow> env" where
  "always e a = e"

definition flaky :: "nat \<Rightarrow> env" where
  "flaky a = (if a = 1 then vpn_down else calm)"

section \<open>Running the combinators\<close>

lemmas io_defs = ret_io_def raise_io_def sys_exit_def bind_io_def emit_def logger_def
  invoke_def try_except_def try_finally_def

lemmas run_defs = outcome_of_def state_after_def events_def

lemma after_after [simp]: "after xs (after ys t) = after (xs @ ys) t"
  by (cases t) simp

lemma after_Nil [simp]: "after [] t = t"
  by (cases t) simp

lemma bind_io_assoc: "bind_io (bind_io m f) g = bind_io m (\<lambda>x. bind_io (f x) g)"
proof
  fix s
  show "bind_io (bind_io m f) g s = bind_io m (\<lambda>x. bind_io (f x) g) s"
  proof (cases "m s")
    case (fields r s1 xs)
    show ?thesis
    proof (cases r)
      case (Returned x)
      obtain r2 s2 ys where "f x s1 = (r2, s2, ys)" by (cases "f x s1") auto
      with fields Returned show ?thesis
        by (cases r2; cases "g (case r2 of Returned y \<Rightarrow> y) s2") (simp_all add: bind_io_def)
    qed (simp_all add: fields bind_io_def)
  qed
qed

lemma bind_ret_io: "bind_io (ret_io x) f = f x"
  by (rule ext) (simp add: bind_io_def ret_io_def)

lemma quiet_simps [simp]:
  "quiet []" "quiet (ev # evs) = (\<not> is_persist ev \<and> quiet evs)"
  "quiet (xs @ ys) = (quiet xs \<and> quiet ys)"
  by (auto simp: quiet_def list_ex_iff)

lemma quiet_rank: "\<not> is_persist ev \<Longrightarrow> effect_rank ev = None"
  by (erule contrapos_np) (induction ev rule: effect_rank.induct, simp_all)

lemma quiet_not_unlink: "\<not> is_persist ev \<Longrightarrow> \<not> is_unlink ev"
  by (erule contrapos_nn) (induction ev rule: is_unlink.induct, simp_all)

lemma map_filter_append:
  "List.map_filter f (xs @ ys) = List.map_filter f xs @ List.map_filter f ys"
  by (simp add: List.map_filter_def)

lemma quiet_ranks: "quiet evs \<Longrightarrow> List.map_filter effect_rank evs = []"
  by (induction evs) (simp_all add: List.map_filter_simps quiet_rank)

lemma quiet_no_unlink: "quiet evs \<Longrightarrow> \<not> list_ex is_unlink evs"
  by (induction evs) (simp_all add: quiet_not_unlink)

lemma quiet_no_insert: "quiet evs \<Longrightarrow> Call Bulk_Insert ok \<notin> set evs"
  by (induction evs) auto

lemma quiet_no_unlink_call: "quiet evs \<Longrightarrow> Call (Unlink p) ok \<notin> set evs"
  by (induction evs) auto

lemma before_first_unlink_quiet:
  "quiet pre \<Longrightarrow> before_first_unlink (pre @ evs) = pre @ before_first_unlink evs"
  by (induction pre) (simp_all add: before_first_unlink_def quiet_not_unlink)

lemma before_first_unlink_mono:
  "set (before_first_unlink evs) \<subseteq> set (before_first_unlink (evs @ post))"
  by (induction evs) (auto simp: before_first_unlink_def)

section \<open>What each routine of the handler can do\<close>

lemma target_of_cases:
  obtains (given) p where "fp = Some p" "target_of h fp s = (Returned p, s, [])"
  | (found) f fs where "fp = None" "glob h (files s) = f # fs"
      "target_of h fp s = (Returned (fst (max_by_key snd f fs)), s, [])"
  | (missing) "fp = None" "glob h (files s) = []"
      "target_of h fp s =
         (Raised FileNotFoundError, s, [Log Error (No_File_With_Prefix (prefix h))])"
proof (cases fp)
  case (Some p)
  then show ?thesis using given by (simp add: target_of_def io_defs)
next
  case None
  show ?thesis
  proof (cases "glob h (files s)")
    case Nil
    with None show ?thesis using missing
      by (simp add: target_of_def find_most_recent_file_def io_defs)
  next
    case (Cons f fs)
    with None show ?thesis using found
      by (simp add: target_of_def find_most_recent_file_def io_defs)
  qed
qed

lemma unlink_cases:
  obtains (removed) "p \<in> fst ` set (files s)" "unlink_fault e p = None"
      "unlink e p s =
         (Returned (), s\<lparr>files := filter (\<lambda>f. fst f \<noteq> p) (files s)\<rparr>, [Call (Unlink p) True])"
  | (refused) x where "unlink e p s = (Raised x, s, [Call (Unlink p) False])"
proof (cases "unlink_fault e p")
  case (Some x)
  then show ?thesis using refused by (simp add: unlink_def io_defs)
next
  case None
  then show ?thesis using removed refused
    by (cases "p \<in> fst ` set (files s)") (simp_all add: unlink_def io_defs)
qed

lemma delete_cases:
  obtains (removed) p where "p \<in> fst ` set (files s)"
      "delete_most_recent_file h e fp s =
         (Returned True, s\<lparr>files := filter (\<lambda>f. fst f \<noteq> p) (files s)\<rparr>,
          [Call (Unlink p) True, Log Info (File_Removed fp)])"
  | (refused) p x where
      "delete_most_recent_file h e fp s =
         (Returned False, s, [Call (Unlink p) False, Log Error (Remove_Error x)])"
  | (no_target) "fp = None" "glob h (files s) = []"
      "delete_most_recent_file h e fp s =
         (Returned False, s, [Log Error (No_File_With_Prefix (prefix h)),
                              Log Error (Remove_Error FileNotFoundError)])"
proof (cases rule: target_of_cases [of fp h s])
  case (given p)
  then show ?thesis using removed [of p] refused [of p]
    by (cases rule: unlink_cases [of p s e]) (simp_all add: delete_most_recent_file_def io_defs)
next
  case (found f fs)
  then show ?thesis
    using removed [of "fst (max_by_key snd f fs)"] refused [of "fst (max_by_key snd f fs)"]
    by (cases rule: unlink_cases [of "fst (max_by_key snd f fs)" s e])
      (simp_all add: delete_most_recent_file_def io_defs)
next
  case missing
  then show ?thesis using no_target
    by (simp add: delete_most_recent_file_def io_defs)
qed

lemma new_handler_cases:
  obtains (present) "new_ExcelFileHandler e None PREFIX s = (Returned (handler0 e), s, [])"
  | (created) "new_ExcelFileHandler e None PREFIX s =
       (Returned (handler0 e), s\<lparr>dirs := user_downloads_dir e # dirs s\<rparr>,
        [Log Warning (Dir_Not_Found (user_downloads_dir e)),
         Call (Mkdir (user_downloads_dir e)) True,
         Log Info (Dir_Created (user_downloads_dir e))])"
  | (failed) x where "new_ExcelFileHandler e None PREFIX s =
       (Raised x, s, [Log Warning (Dir_Not_Found (user_downloads_dir e)),
                      Call (Mkdir (user_downloads_dir e)) False])"
proof (cases "user_downloads_dir e \<in> set (dirs s)")
  case True
  then show ?thesis using present
    by (simp add: new_ExcelFileHandler_def io_defs handler0_def Let_def)
next
  case False
  then show ?thesis using created failed
    by (cases "mkdir_fault e")
      (simp_all add: new_ExcelFileHandler_def io_defs handler0_def Let_def)
qed

lemma process_cases:
  obtains (processed) p df where
      "process_most_recent_file h e fp s =
         (Returned \<lparr>success = True, message = Msg_Processed, dataframe = Some df\<rparr>, s,
          [Log Info (Processing_Target (snd p)), Call (Read_Excel p) True,
           Log Info Excel_Processed])"
  | (unreadable) p x where
      "process_most_recent_file h e fp s =
         (Returned \<lparr>success = False, message = Msg_Process_Error x, dataframe = None\<rparr>, s,
          [Log Info (Processing_Target (snd p)), Call (Read_Excel p) False])"
  | (no_target) "fp = None" "glob h (files s) = []"
      "process_most_recent_file h e fp s =
         (Returned \<lparr>success = False, message = Msg_Most_Recent_Error FileNotFoundError,
                    dataframe = None\<rparr>, s,
          [Log Error (No_File_With_Prefix (prefix h)),
           Log Error (Most_Recent_Error FileNotFoundError)])"
proof (cases rule: target_of_cases [of fp h s])
  case (given p)
  then show ?thesis using processed [of _ p] unreadable [of _ p]
    by (cases "excel e p")
      (simp_all add: process_most_recent_file_def load_to_dataframe_def io_defs)
next
  case (found f fs)
  then show ?thesis
    using processed [of _ "fst (max_by_key snd f fs)"]
      unreadable [of _ "fst (max_by_key snd f fs)"]
    by (cases "excel e (fst (max_by_key snd f fs))")
      (simp_all add: process_most_recent_file_def load_to_dataframe_def io_defs)
next
  case missing
  then show ?thesis using no_target
    by (simp add: process_most_recent_file_def io_defs)
qed

section \<open>The persist phase\<close>

lemmas persist_defs = with_db_def persist_def

lemma persist_phase_no_exit: "outcome_of (with_db e (persist cfg e h fp)) s \<noteq> SystemExit c"
  by (cases rule: delete_cases [of s h e fp]; cases "db_open e"; cases "table_exists e";
      cases "create_table_from_dataframe e"; cases "bulk_insert_dataframe e"; cases "db_close e";
      simp add: persist_defs io_defs run_defs)

lemma persist_phase_order:
  "sorted_wrt (<) (List.map_filter effect_rank (events (with_db e (persist cfg e h fp)) s))"
  by (cases rule: delete_cases [of s h e fp]; cases "db_open e"; cases "table_exists e";
      cases "create_table_from_dataframe e"; cases "bulk_insert_dataframe e"; cases "db_close e";
      simp add: persist_defs io_defs run_defs List.map_filter_simps)

lemma persist_phase_unlink_after_insert:
  "list_ex is_unlink (events (with_db e (persist cfg e h fp)) s) \<Longrightarrow>
   Call Bulk_Insert True \<in> set (before_first_unlink (events (with_db e (persist cfg e h fp)) s))"
  by (cases rule: delete_cases [of s h e fp]; cases "db_open e"; cases "table_exists e";
      cases "create_table_from_dataframe e"; cases "bulk_insert_dataframe e"; cases "db_close e";
      simp add: persist_defs io_defs run_defs before_first_unlink_def split: if_splits)

lemma persist_phase_insert_first:
  "Call Bulk_Insert True \<notin> set (events (with_db e (persist cfg e h fp)) s) \<Longrightarrow>
   state_after (with_db e (persist cfg e h fp)) s = s \<and>
   \<not> list_ex is_unlink (events (with_db e (persist cfg e h fp)) s)"
  by (cases rule: delete_cases [of s h e fp]; cases "db_open e"; cases "table_exists e";
      cases "create_table_from_dataframe e"; cases "bulk_insert_dataframe e"; cases "db_close e";
      simp add: persist_defs io_defs run_defs split: if_splits)

lemma persist_phase_committed:
  "Call Bulk_Insert True \<in> set (events (with_db e (persist cfg e h fp)) s) \<Longrightarrow>
   db_close e = Inr () \<Longrightarrow>
   outcome_of (with_db e (persist cfg e h fp)) s = Returned True \<and>
   (\<forall>p. Call (Unlink p) False \<in> set (events (with_db e (persist cfg e h fp)) s) \<longrightarrow>
      (\<exists>x. Log Error (Remove_Error x) \<in> set (events (with_db e (persist cfg e h fp)) s)) \<and>
      state_after (with_db e (persist cfg e h fp)) s = s)"
  by (cases rule: delete_cases [of s h e fp]; cases "db_open e"; cases "table_exists e";
      cases "create_table_from_dataframe e"; cases "bulk_insert_dataframe e";
      simp add: persist_defs io_defs run_defs split: if_splits)

section \<open>The load stage, path by path\<close>

lemma load_body_after_handler:
  assumes "new_ExcelFileHandler e None PREFIX s = (Returned h, s1, xs)" and "quiet xs"
  obtains (transform_failed) r :: FileProcessingResult and pre where
      "quiet pre" "\<not> success r"
      "load_body cfg e fp s =
         (Returned False, s1, pre @ [Log Error (Transform_Failed (message r))])"
  | (persisting) pre where "quiet pre"
      "load_body cfg e fp s = after pre (with_db e (persist cfg e h fp) s1)"
proof (cases rule: process_cases [of h e fp s1])
  case (processed p df)
  let ?pre = "xs @ [Log Info (Processing_Target (snd p)), Call (Read_Excel p) True,
                    Log Info Excel_Processed, Log Info (Transform_Ok (length df))]"
  have "load_body cfg e fp s = after ?pre (with_db e (persist cfg e h fp) s1)"
    using assms(1) processed by (simp add: load_body_def io_defs py_len_def)
  moreover have "quiet ?pre" using assms(2) by simp
  ultimately show ?thesis by (rule persisting [rotated])
next
  case (unreadable p x)
  let ?pre = "xs @ [Log Info (Processing_Target (snd p)), Call (Read_Excel p) False]"
  let ?r = "\<lparr>success = False, message = Msg_Process_Error x, dataframe = None\<rparr>"
  have "load_body cfg e fp s =
      (Returned False, s1, ?pre @ [Log Error (Transform_Failed (message ?r))])"
    using assms(1) unreadable by (simp add: load_body_def io_defs)
  moreover have "quiet ?pre" using assms(2) by simp
  ultimately show ?thesis using transform_failed [of ?pre ?r] by simp
next
  case no_target
  let ?pre = "xs @ [Log Error (No_File_With_Prefix (prefix h)),
                    Log Error (Most_Recent_Error FileNotFoundError)]"
  let ?r = "\<lparr>success = False, message = Msg_Most_Recent_Error FileNotFoundError,
               dataframe = None\<rparr>"
  have "load_body cfg e fp s =
      (Returned False, s1, ?pre @ [Log Error (Transform_Failed (message ?r))])"
    using assms(1) no_target by (simp add: load_body_def io_defs)
  moreover have "quiet ?pre" using assms(2) by simp
  ultimately show ?thesis using transform_failed [of ?pre ?r] by simp
qed

lemma load_body_cases:
  obtains (no_handler) x pre where "quiet pre" "load_body cfg e fp s = (Raised x, s, pre)"
  | (transform_failed) r :: FileProcessingResult and s1 pre where
      "quiet pre" "files s1 = files s" "\<not> success r"
      "load_body cfg e fp s =
         (Returned False, s1, pre @ [Log Error (Transform_Failed (message r))])"
  | (persisting) s1 pre where "quiet pre" "files s1 = files s"
      "load_body cfg e fp s = after pre (persist_phase cfg e fp s1)"
proof (cases rule: new_handler_cases [of e s])
  case present
  show ?thesis
    by (rule load_body_after_handler [OF present, where fp = fp and cfg = cfg])
      (simp_all add: transform_failed [of _ s] persisting [of _ s] persist_phase_def)
next
  case created
  let ?s1 = "s\<lparr>dirs := user_downloads_dir e # dirs s\<rparr>"
  show ?thesis
    by (rule load_body_after_handler [OF created, where fp = fp and cfg = cfg])
      (simp_all add: transform_failed [of _ ?s1] persisting [of _ ?s1] persist_phase_def)
next
  case (failed x)
  then have "load_body cfg e fp s =
      (Raised x, s, [Log Warning (Dir_Not_Found (user_downloads_dir e)),
                     Call (Mkdir (user_downloads_dir e)) False])"
    by (simp add: load_body_def io_defs)
  then show ?thesis by (rule no_handler [rotated]) simp
qed

lemma load_step_cases:
  obtains (no_handler) x pre where "quiet pre" "load_body cfg e fp s = (Raised x, s, pre)"
      "load_step cfg e fp s = (Returned False, s, pre @ [Log Error (Load_Critical x)])"
  | (transform_failed) r :: FileProcessingResult and s1 pre where
      "quiet pre" "files s1 = files s" "\<not> success r"
      "load_body cfg e fp s =
         (Returned False, s1, pre @ [Log Error (Transform_Failed (message r))])"
      "load_step cfg e fp s =
         (Returned False, s1, pre @ [Log Error (Transform_Failed (message r))])"
  | (persisted) s1 pre post where "quiet pre" "quiet post" "files s1 = files s"
      "load_body cfg e fp s =
         (outcome_of (persist_phase cfg e fp) s1, state_after (persist_phase cfg e fp) s1,
          pre @ events (persist_phase cfg e fp) s1)"
      "load_step cfg e fp s =
         (Returned (outcome_of (persist_phase cfg e fp) s1 = Returned True),
          state_after (persist_phase cfg e fp) s1,
          pre @ events (persist_phase cfg e fp) s1 @ post)"
      "post = (case outcome_of (persist_phase cfg e fp) s1 of
                 Raised x \<Rightarrow> [Log Error (Load_Critical x)] | _ \<Rightarrow> [])"
proof (cases rule: load_body_cases [of cfg e fp s])
  case (no_handler x pre)
  then show ?thesis
    by (intro that(1) [of pre x]) (simp_all add: load_step_def io_defs)
next
  case (transform_failed r s1 pre)
  then show ?thesis
    by (intro that(2) [of pre s1 r]) (simp_all add: load_step_def io_defs)
next
  case (persisting s1 pre)
  obtain r s2 ys where W: "persist_phase cfg e fp s1 = (r, s2, ys)"
    by (cases "persist_phase cfg e fp s1") auto
  have nx: "\<And>c. r \<noteq> SystemExit c"
    using persist_phase_no_exit [of e cfg "handler0 e" fp s1] W
    by (simp add: run_defs persist_phase_def)
  let ?post = "case r of Raised x \<Rightarrow> [Log Error (Load_Critical x)] | _ \<Rightarrow> []"
  show ?thesis
  proof (intro that(3) [of pre ?post s1])
    show "quiet pre" by fact
    show "quiet ?post" by (cases r) simp_all
    show "files s1 = files s" by fact
    show "load_body cfg e fp s =
         (outcome_of (persist_phase cfg e fp) s1, state_after (persist_phase cfg e fp) s1,
          pre @ events (persist_phase cfg e fp) s1)"
      using persisting(3) W by (simp add: run_defs)
    show "load_step cfg e fp s =
         (Returned (outcome_of (persist_phase cfg e fp) s1 = Returned True),
          state_after (persist_phase cfg e fp) s1,
          pre @ events (persist_phase cfg e fp) s1 @ ?post)"
      using persisting(3) W nx by (cases r) (auto simp: load_step_def io_defs run_defs)
    show "?post = (case outcome_of (persist_phase cfg e fp) s1 of
                 Raised x \<Rightarrow> [Log Error (Load_Critical x)] | _ \<Rightarrow> [])"
      using W by (simp add: run_defs)
  qed
qed

section \<open>The elapsed time as text\<close>

lemma is_digit_digit_char [simp]: "is_digit (digit_char d)"
proof -
  have "d mod 10 < length ''0123456789''" by simp
  then have "''0123456789'' ! (d mod 10) \<in> set ''0123456789''" by (rule nth_mem)
  then show ?thesis by (simp only: is_digit_def digit_char_def)
qed

lemma digit_char_not_sign: "digit_char d \<noteq> CHR ''+''" "digit_char d \<noteq> CHR ''-''"
  using is_digit_digit_char [of d] by (auto simp: is_digit_def)

lemma digit_char_0: "digit_char 0 = CHR ''0''"
  by (simp add: digit_char_def)

lemma str_nat_small: "n < 10 \<Longrightarrow> str_nat n = [digit_char n]"
  by (simp add: str_nat.simps)

lemma str_nat_two: "10 \<le> n \<Longrightarrow> n < 100 \<Longrightarrow> str_nat n = two_digits n"
  by (subst str_nat.simps) (simp add: str_nat_small two_digits_def digit_char_def)

lemma fmt02_two_digits: "n < 100 \<Longrightarrow> fmt02 n = two_digits n"
  by (cases "n < 10")
    (simp_all add: fmt02_def str_nat_small str_nat_two two_digits_def digit_char_0)

lemma is_hh_mm_ss_hh_mm_ss: "is_hh_mm_ss (hh_mm_ss n)"
  by (simp add: is_hh_mm_ss_def hh_mm_ss_def two_digits_def)

lemma zfill_str_timedelta:
  assumes "n < 86400"
  shows "zfill 8 (str_timedelta n) = hh_mm_ss n"
proof -
  have h: "n div 60 div 60 = n div 3600" by (simp add: div_mult2_eq)
  have hlt: "n div 3600 < 24" using assms by (simp add: div_less_iff_less_mult)
  have m: "fmt02 (n div 60 mod 60) = two_digits (n div 60 mod 60)"
    by (rule fmt02_two_digits) simp
  have sec: "fmt02 (n mod 60) = two_digits (n mod 60)"
    by (rule fmt02_two_digits) simp
  have td: "str_timedelta n =
      str_nat (n div 3600) @ '':'' @ two_digits (n div 60 mod 60) @ '':'' @ two_digits (n mod 60)"
    using assms by (simp add: str_timedelta_def Let_def h m sec)
  show ?thesis
  proof (cases "n div 3600 < 10")
    case True
    then show ?thesis
      unfolding td hh_mm_ss_def
      by (simp add: str_nat_small zfill_def two_digits_def digit_char_not_sign digit_char_0)
  next
    case False
    with hlt have "str_nat (n div 3600) = two_digits (n div 3600)"
      by (intro str_nat_two) simp_all
    then show ?thesis
      unfolding td hh_mm_ss_def by (simp add: zfill_def two_digits_def)
  qed
qed

section \<open>The retry loop\<close>

lemma for_attempts_append:
  "for_attempts cfg world (xs @ ys) =
     bind_io (for_attempts cfg world xs) (\<lambda>_. for_attempts cfg world ys)"
  by (induction xs) (simp_all add: bind_io_assoc bind_ret_io)

lemma attempt_body_success:
  assumes "manage_vpn_connection cfg e s = (Returned v, s1, xs1)" and "truthy v"
    and "extract_step e s1 = (Returned (True, Some p), s2, xs2)"
    and "load_step cfg e (Some p) s2 = (Returned True, s3, xs3)"
    and "elapsed e div 86400 \<le> 999999999"
  shows "attempt_body cfg e a s =
     (SystemExit 0, s3,
      [Log Info Pipeline_Start, Log Info (Attempt_No a (max_retries cfg))] @ xs1 @ xs2 @ xs3 @
      [Log Info (Pipeline_Done (zfill 8 (str_timedelta (elapsed e))))])"
  using assms by (simp add: attempt_body_def io_defs timedelta_def)




section \<open>Concrete runs, evaluated\<close>

lemmas sample_defs = report_def disk_def cfg0_def calm_def default_config_def initial_def
  PREFIX_def handler0_def

lemmas stage_defs = manage_vpn_connection_def wait_for_def timed_out_def truthy_def extract_step_def
  new_ExcelFileHandler_def find_most_recent_file_def load_to_dataframe_def
  target_of_def process_most_recent_file_def unlink_def delete_most_recent_file_def
  py_len_def with_db_def persist_def load_body_def load_step_def glob_def startswith_def
  max_by_key_def Let_def

lemmas pipeline_defs = attempt_body_def run_pipeline_def timedelta_def sleep_def
  str_timedelta_def zfill_def fmt02_def digit_char_def str_nat.simps

lemma run_vpn_down:
  "manage_vpn_connection cfg0 vpn_down disk =
     (Returned None, disk,
      [Call New_Manager True, Awaited 2, Call Connect_With_Fallback True,
       Log Error (Vpn_Failed ''no route'')])"
  by (simp add: sample_defs vpn_down_def stage_defs io_defs)

lemma run_vpn_calm:
  "manage_vpn_connection cfg0 calm disk =
     (Returned (Some True), disk,
      [Call New_Manager True, Awaited 2, Call Connect_With_Fallback True,
       Log Info (Vpn_Established ''vpn-a'')])"
  by (simp add: sample_defs stage_defs io_defs)

lemma run_extract_calm:
  "extract_step calm disk =
     (Returned (True, Some report), disk,
      [Call New_Scraper True, Log Info Extract_Start, Call Scraper_Execute True,
       Call Scraper_Close True])"
  by (simp add: sample_defs stage_defs io_defs)

lemma run_extract_raises:
  "extract_step scrape_raises disk =
     (Raised (OtherError ''selector''), disk,
      [Call New_Scraper True, Log Info Extract_Start, Call Scraper_Execute False,
       Call Scraper_Close True])"
  by (simp add: sample_defs scrape_raises_def stage_defs io_defs)

lemma run_load_calm:
  "load_step cfg0 calm (Some report) disk =
     (Returned True, disk\<lparr>files := []\<rparr>,
      [Log Info (Processing_Target ''CONSULTA_TLP_PCP_LP_FSP_CS_0411.xlsx''),
       Call (Read_Excel report) True, Log Info Excel_Processed, Log Info (Transform_Ok 1),
       Call Db_Open True, Log Info (Db_Connected ''sigitm''), Call Table_Exists True,
       Call Create_Table True, Log Info (Table_Created ''tb_lp_fsp''), Call Bulk_Insert True,
       Log Info (Load_Done ''tb_lp_fsp''), Call (Unlink report) True,
       Log Info (File_Removed (Some report)), Call Db_Close True])"
  by (simp add: sample_defs stage_defs io_defs)

lemma run_load_insert_fails:
  "load_step cfg0 insert_fails (Some report) disk =
     (Returned False, disk,
      [Log Info (Processing_Target ''CONSULTA_TLP_PCP_LP_FSP_CS_0411.xlsx''),
       Call (Read_Excel report) True, Log Info Excel_Processed, Log Info (Transform_Ok 1),
       Call Db_Open True, Log Info (Db_Connected ''sigitm''), Call Table_Exists True,
       Call Create_Table True, Log Info (Table_Created ''tb_lp_fsp''), Call Bulk_Insert False,
       Call Db_Close True, Log Error (Load_Critical (OtherError ''deadlock''))])"
  by (simp add: sample_defs insert_fails_def stage_defs io_defs)

lemma run_load_body_db_refuses:
  "load_body cfg0 db_refuses (Some report) disk =
     (Raised (OtherError ''refused''), disk,
      [Log Info (Processing_Target ''CONSULTA_TLP_PCP_LP_FSP_CS_0411.xlsx''),
       Call (Read_Excel report) True, Log Info Excel_Processed, Log Info (Transform_Ok 1),
       Call Db_Open False])"
  by (simp add: sample_defs db_refuses_def stage_defs io_defs)

lemma run_load_unreadable:
  "load_step cfg0 unreadable (Some report) disk =
     (Returned False, disk,
      [Log Info (Processing_Target ''CONSULTA_TLP_PCP_LP_FSP_CS_0411.xlsx''),
       Call (Read_Excel report) False,
       Log Error (Transform_Failed (Msg_Process_Error (OtherError ''corrupt'')))])"
  by (simp add: sample_defs unreadable_def stage_defs io_defs)

lemma run_load_file_locked:
  "load_step cfg0 file_locked (Some report) disk =
     (Returned True, disk,
      [Log Info (Processing_Target ''CONSULTA_TLP_PCP_LP_FSP_CS_0411.xlsx''),
       Call (Read_Excel report) True, Log Info Excel_Processed, Log Info (Transform_Ok 1),
       Call Db_Open True, Log Info (Db_Connected ''sigitm''), Call Table_Exists True,
       Call Create_Table True, Log Info (Table_Created ''tb_lp_fsp''), Call Bulk_Insert True,
       Log Info (Load_Done ''tb_lp_fsp''), Call (Unlink report) False,
       Log Error (Remove_Error (OtherError ''in use'')), Call Db_Close True])"
  by (simp add: sample_defs file_locked_def stage_defs io_defs)

lemma run_first_attempt_vpn_down:
  "for_attempts cfg0 flaky [1 ..< 2] disk =
     (Returned (), disk,
      [Log Info Pipeline_Start, Log Info (Attempt_No 1 3),
       Call New_Manager True, Awaited 2, Call Connect_With_Fallback True,
       Log Error (Vpn_Failed ''no route''),
       Log Warning (Attempt_Failed 1 ConnectionError), Log Info (Waiting 10), Sleep 10])"
  by (simp add: sample_defs vpn_down_def flaky_def stage_defs pipeline_defs io_defs upt_rec)

lemma run_all_vpn_down:
  "run_pipeline cfg0 (always vpn_down) disk =
     (SystemExit 1, disk,
      [Log Info Pipeline_Start, Log Info (Attempt_No 1 3),
       Call New_Manager True, Awaited 2, Call Connect_With_Fallback True,
       Log Error (Vpn_Failed ''no route''),
       Log Warning (Attempt_Failed 1 ConnectionError), Log Info (Waiting 10), Sleep 10,
       Log Info Pipeline_Start, Log Info (Attempt_No 2 3),
       Call New_Manager True, Awaited 2, Call Connect_With_Fallback True,
       Log Error (Vpn_Failed ''no route''),
       Log Warning (Attempt_Failed 2 ConnectionError), Log Info (Waiting 10), Sleep 10,
       Log Info Pipeline_Start, Log Info (Attempt_No 3 3),
       Call New_Manager True, Awaited 2, Call Connect_With_Fallback True,
       Log Error (Vpn_Failed ''no route''),
       Log Warning (Attempt_Failed 3 ConnectionError), Log Info (Waiting 10), Sleep 10,
       Log Critical Definitive_Failure])"
  by (simp add: sample_defs vpn_down_def always_def stage_defs pipeline_defs io_defs upt_rec)

lemma run_all_unreadable:
  "outcome_of (run_pipeline cfg0 (always unreadable)) disk = SystemExit 1 \<and>
   count_list (events (run_pipeline cfg0 (always unreadable)) disk) (Sleep 10) = 0"
  by (simp add: sample_defs unreadable_def always_def stage_defs pipeline_defs io_defs
      run_defs upt_rec)

lemma run_day_long:
  "outcome_of (run_pipeline cfg0 (always day_long)) disk = SystemExit 0 \<and>
   last (events (run_pipeline cfg0 (always day_long)) disk) =
     Log Info (Pipeline_Done ''1 day, 0:00:00'')"
  by (simp add: sample_defs day_long_def always_def stage_defs pipeline_defs io_defs
      run_defs upt_rec)

section \<open>The claims\<close>

text \<open>
  C1. If all \<^verbatim>\<open>max_retries\<close> attempts fail, the process ends with exit status 1 and
  the retry delay is slept exactly \<^verbatim>\<open>max_retries - 1\<close> times. The code does not do
  that: the guard \<^verbatim>\<open>attempt <= self.max_retries\<close> holds on every pass of the loop, so
  a failed last attempt is followed by a sleep too. With the default configuration
  and a connector that reports failure on each of the three attempts the exit status
  is 1 and the delay is slept three times, not two, the last time right before the
  final log line. (And an attempt that fails because the load stage returns \<^verbatim>\<open>False\<close>
  raises nothing, so it is followed by no sleep at all: three such attempts sleep zero
  times.)
\<close>

theorem all_attempts_fail_three_sleeps:
  "outcome_of (run_pipeline cfg0 (always vpn_down)) disk = SystemExit 1 \<and>
   max_retries cfg0 = 3 \<and>
   count_list (events (run_pipeline cfg0 (always vpn_down)) disk) (Sleep 10) = 3 \<and>
   drop 25 (events (run_pipeline cfg0 (always vpn_down)) disk) =
     [Log Info (Waiting 10), Sleep 10, Log Critical Definitive_Failure] \<and>
   outcome_of (run_pipeline cfg0 (always unreadable)) disk = SystemExit 1 \<and>
   count_list (events (run_pipeline cfg0 (always unreadable)) disk) (Sleep 10) = 0"
proof -
  have "max_retries cfg0 = 3"
    by (simp add: cfg0_def default_config_def)
  moreover have "outcome_of (run_pipeline cfg0 (always vpn_down)) disk = SystemExit 1 \<and>
      count_list (events (run_pipeline cfg0 (always vpn_down)) disk) (Sleep 10) = 3 \<and>
      drop 25 (events (run_pipeline cfg0 (always vpn_down)) disk) =
        [Log Info (Waiting 10), Sleep 10, Log Critical Definitive_Failure]"
    by (simp add: run_all_vpn_down run_defs)
  ultimately show ?thesis using run_all_unreadable by simp
qed

text \<open>
  C2. When \<^verbatim>\<open>connect_with_fallback\<close> comes back within the deadline with a false
  status, \<^verbatim>\<open>_manage_vpn_connection\<close> logs an error and returns an explicit false value.
  The code logs the error and then runs off the end of the function: the value is
  \<^verbatim>\<open>None\<close>, not the bool \<^verbatim>\<open>False\<close> that the annotation \<^verbatim>\<open>-> bool\<close> and the two handlers
  give.
\<close>

theorem vpn_reported_failure_returns_none:
  "manage_vpn_connection cfg0 vpn_down disk =
     (Returned None, disk,
      [Call New_Manager True, Awaited 2, Call Connect_With_Fallback True,
       Log Error (Vpn_Failed ''no route'')]) \<and>
   outcome_of (manage_vpn_connection cfg0 vpn_down) disk \<noteq> Returned (Some False) \<and>
   \<not> truthy None"
  by (simp add: run_vpn_down run_defs truthy_def)

text \<open>
  C3. Once \<^verbatim>\<open>_extract_step\<close> holds its scraper, the scraper's close routine is called
  exactly once, whatever the scraping workflow does (a success tuple, a failure
  tuple or an exception) and whatever the close routine itself does.
\<close>

theorem extract_step_closes_once:
  assumes "new_scraper e = Inr ()"
  shows "length (filter (is_call Scraper_Close) (events (extract_step e) s)) = 1"
  using assms
  by (cases "execute_process_sigitm e"; cases "scraper_close e")
    (simp_all add: extract_step_def io_defs run_defs)

theorem extract_step_closes_once_witness:
  "new_scraper scrape_raises = Inr () \<and>
   outcome_of (extract_step scrape_raises) disk = Raised (OtherError ''selector'') \<and>
   length (filter (is_call Scraper_Close) (events (extract_step scrape_raises) disk)) = 1"
  using extract_step_closes_once [of scrape_raises disk]
  by (simp add: run_extract_raises run_defs) (simp add: sample_defs scrape_raises_def)

text \<open>
  C4. In the load stage the side effects come in the order table creation (when the
  table is missing), bulk insert, deletion of the artifact file, each at most once;
  a deletion is attempted only after the bulk insert has returned normally; and when
  the bulk insert has not returned normally (the persist phase raised before or in
  it) no deletion is attempted and the files are as they were.
\<close>

theorem load_step_effects_ordered:
  "sorted_wrt (<) (List.map_filter effect_rank (events (load_step cfg e fp) s)) \<and>
   (list_ex is_unlink (events (load_step cfg e fp) s) \<longrightarrow>
      Call Bulk_Insert True \<in> set (before_first_unlink (events (load_step cfg e fp) s))) \<and>
   (Call Bulk_Insert True \<notin> set (events (load_step cfg e fp) s) \<longrightarrow>
      files (state_after (load_step cfg e fp) s) = files s \<and>
      \<not> list_ex is_unlink (events (load_step cfg e fp) s))"
proof (cases rule: load_step_cases [of cfg e fp s])
  case (no_handler x pre)
  then show ?thesis
    by (simp add: run_defs map_filter_append quiet_ranks quiet_no_unlink List.map_filter_simps)
next
  case (transform_failed r s1 pre)
  then show ?thesis
    by (simp add: run_defs map_filter_append quiet_ranks quiet_no_unlink List.map_filter_simps)
next
  case (persisted s1 pre post)
  let ?ys = "events (persist_phase cfg e fp) s1"
  have ev: "events (load_step cfg e fp) s = pre @ ?ys @ post"
    and st: "state_after (load_step cfg e fp) s = state_after (persist_phase cfg e fp) s1"
    using persisted(5) by (simp_all add: run_defs)
  have ranks: "List.map_filter effect_rank (pre @ ?ys @ post) = List.map_filter effect_rank ?ys"
    using persisted(1,2) by (simp add: map_filter_append quiet_ranks)
  have unl: "list_ex is_unlink (pre @ ?ys @ post) = list_ex is_unlink ?ys"
    using persisted(1,2) by (simp add: quiet_no_unlink)
  have ins: "Call Bulk_Insert True \<in> set (pre @ ?ys @ post) \<longleftrightarrow> Call Bulk_Insert True \<in> set ?ys"
    using persisted(1,2) by (simp add: quiet_no_insert)
  have bef: "set (before_first_unlink ?ys) \<subseteq> set (before_first_unlink (pre @ ?ys @ post))"
    using persisted(1) before_first_unlink_mono [of ?ys post]
    by (auto simp: before_first_unlink_quiet)
  have 1: "sorted_wrt (<) (List.map_filter effect_rank (events (load_step cfg e fp) s))"
    unfolding ev ranks by (simp add: persist_phase_def persist_phase_order)
  have 2: "list_ex is_unlink (events (load_step cfg e fp) s) \<longrightarrow>
      Call Bulk_Insert True \<in> set (before_first_unlink (events (load_step cfg e fp) s))"
    unfolding ev unl
    using persist_phase_unlink_after_insert [of e cfg "handler0 e" fp s1] bef
    unfolding persist_phase_def by blast
  have 3: "Call Bulk_Insert True \<notin> set (events (load_step cfg e fp) s) \<longrightarrow>
      files (state_after (load_step cfg e fp) s) = files s \<and>
      \<not> list_ex is_unlink (events (load_step cfg e fp) s)"
    unfolding ev unl ins st
    using persist_phase_insert_first [of e cfg "handler0 e" fp s1] persisted(3)
    unfolding persist_phase_def by simp
  from 1 2 3 show ?thesis by blast
qed

theorem load_step_effects_ordered_witness:
  "Call Create_Table True \<in> set (events (load_step cfg0 insert_fails (Some report)) disk) \<and>
   Call Bulk_Insert True \<notin> set (events (load_step cfg0 insert_fails (Some report)) disk) \<and>
   files (state_after (load_step cfg0 insert_fails (Some report)) disk) = files disk \<and>
   files disk = [(report, 100)] \<and>
   list_ex is_unlink (events (load_step cfg0 calm (Some report)) disk) \<and>
   Call Bulk_Insert True
     \<in> set (before_first_unlink (events (load_step cfg0 calm (Some report)) disk)) \<and>
   List.map_filter effect_rank (events (load_step cfg0 calm (Some report)) disk) = [0, 1, 2]"
  using load_step_effects_ordered [of cfg0 insert_fails "Some report" disk]
    load_step_effects_ordered [of cfg0 calm "Some report" disk]
  by (simp add: run_load_insert_fails run_load_calm run_defs before_first_unlink_def
      List.map_filter_simps)
    (simp add: sample_defs)

text \<open>
  C5. No exception leaves \<^verbatim>\<open>_load_step\<close>: it always returns a bool, and whenever the
  body of its \<^verbatim>\<open>try\<close> block (transform phase or persist phase) raises, the exception is
  logged as an error and the value returned is \<^verbatim>\<open>False\<close>.
\<close>

theorem load_step_catches_everything:
  "(\<exists>b. outcome_of (load_step cfg e fp) s = Returned b) \<and>
   (\<forall>x. outcome_of (load_body cfg e fp) s = Raised x \<longrightarrow>
      outcome_of (load_step cfg e fp) s = Returned False \<and>
      events (load_step cfg e fp) s =
        events (load_body cfg e fp) s @ [Log Error (Load_Critical x)])"
proof (cases rule: load_step_cases [of cfg e fp s])
  case (no_handler x pre)
  then show ?thesis by (auto simp: run_defs)
next
  case (transform_failed r s1 pre)
  then show ?thesis by (auto simp: run_defs)
next
  case (persisted s1 pre post)
  then show ?thesis by (auto simp: run_defs)
qed

theorem load_step_catches_everything_witness:
  "outcome_of (load_body cfg0 db_refuses (Some report)) disk = Raised (OtherError ''refused'') \<and>
   outcome_of (load_step cfg0 db_refuses (Some report)) disk = Returned False \<and>
   last (events (load_step cfg0 db_refuses (Some report)) disk) =
     Log Error (Load_Critical (OtherError ''refused''))"
  using load_step_catches_everything [of cfg0 db_refuses "Some report" disk]
  by (simp add: run_load_body_db_refuses run_defs)

text \<open>
  C6. When the transform collaborator reports failure (\<^verbatim>\<open>result.success\<close> is false),
  \<^verbatim>\<open>_load_step\<close> logs the failure as its last act and returns \<^verbatim>\<open>False\<close>; no call of the
  persist phase is made: no database session, no table check, no table creation, no
  bulk insert, no deletion.
\<close>

theorem transform_failure_skips_persist:
  assumes "outcome_of (new_ExcelFileHandler e None PREFIX) s = Returned h"
    and "outcome_of (process_most_recent_file h e fp)
           (state_after (new_ExcelFileHandler e None PREFIX) s) = Returned r"
    and "\<not> success r"
  shows "outcome_of (load_step cfg e fp) s = Returned False \<and>
         last (events (load_step cfg e fp) s) = Log Error (Transform_Failed (message r)) \<and>
         \<not> list_ex is_persist (events (load_step cfg e fp) s)"
proof -
  define s1 where "s1 = state_after (new_ExcelFileHandler e None PREFIX) s"
  obtain xs where H: "new_ExcelFileHandler e None PREFIX s = (Returned h, s1, xs)" "quiet xs"
    using assms(1) unfolding s1_def
    by (cases rule: new_handler_cases [of e s]) (auto simp: run_defs)
  obtain s2 ys where P: "process_most_recent_file h e fp s1 = (Returned r, s2, ys)" "quiet ys"
    using assms(2) unfolding s1_def [symmetric]
    by (cases rule: process_cases [of h e fp s1]) (auto simp: run_defs)
  have "load_step cfg e fp s =
      (Returned False, s2, xs @ ys @ [Log Error (Transform_Failed (message r))])"
    using H(1) P(1) assms(3) by (simp add: load_step_def load_body_def io_defs)
  then show ?thesis using H(2) P(2) by (simp add: run_defs quiet_def)
qed

theorem transform_failure_skips_persist_witness:
  "outcome_of (new_ExcelFileHandler unreadable None PREFIX) disk = Returned (handler0 unreadable) \<and>
   outcome_of (process_most_recent_file (handler0 unreadable) unreadable (Some report))
     (state_after (new_ExcelFileHandler unreadable None PREFIX) disk) =
     Returned \<lparr>success = False, message = Msg_Process_Error (OtherError ''corrupt''),
               dataframe = None\<rparr> \<and>
   outcome_of (load_step cfg0 unreadable (Some report)) disk = Returned False \<and>
   last (events (load_step cfg0 unreadable (Some report)) disk) =
     Log Error (Transform_Failed (Msg_Process_Error (OtherError ''corrupt''))) \<and>
   \<not> list_ex is_persist (events (load_step cfg0 unreadable (Some report)) disk)"
proof -
  have h: "outcome_of (new_ExcelFileHandler unreadable None PREFIX) disk =
      Returned (handler0 unreadable)"
    by (simp add: sample_defs unreadable_def stage_defs io_defs run_defs)
  have p: "outcome_of (process_most_recent_file (handler0 unreadable) unreadable (Some report))
     (state_after (new_ExcelFileHandler unreadable None PREFIX) disk) =
     Returned \<lparr>success = False, message = Msg_Process_Error (OtherError ''corrupt''),
               dataframe = None\<rparr>"
    by (simp add: sample_defs unreadable_def stage_defs io_defs run_defs)
  show ?thesis
    using transform_failure_skips_persist [OF h p, of cfg0] h p by simp
qed

text \<open>
  C7, as amended. When the load stage returns true on attempt \<open>a\<close> (the attempts
  before it having failed), the orchestrator takes the whole seconds elapsed since
  the start, logs \<^verbatim>\<open>str(timedelta(seconds=...)).zfill(8)\<close> of them and exits with
  status 0; nothing happens after that log line, whatever the collaborators would do
  in later attempts. The text is the zero-padded \<^verbatim>\<open>HH:MM:SS\<close> when the elapsed time
  is below 24 hours. (The elapsed time has to fit a \<^verbatim>\<open>timedelta\<close>: at most 999999999
  days.)
\<close>

theorem load_success_exits_zero:
  assumes "1 \<le> a" and "a \<le> max_retries cfg"
    and "for_attempts cfg world [1 ..< a] s0 = (Returned (), s, pre)"
    and "manage_vpn_connection cfg (world a) s = (Returned v, s1, xs1)" and "truthy v"
    and "extract_step (world a) s1 = (Returned (True, Some p), s2, xs2)"
    and "load_step cfg (world a) (Some p) s2 = (Returned True, s3, xs3)"
    and "elapsed (world a) div 86400 \<le> 999999999"
  shows "run_pipeline cfg world s0 =
     (SystemExit 0, s3,
      pre @ [Log Info Pipeline_Start, Log Info (Attempt_No a (max_retries cfg))] @
      xs1 @ xs2 @ xs3 @
      [Log Info (Pipeline_Done (zfill 8 (str_timedelta (elapsed (world a)))))]) \<and>
     (elapsed (world a) < 86400 \<longrightarrow>
        zfill 8 (str_timedelta (elapsed (world a))) = hh_mm_ss (elapsed (world a)) \<and>
        is_hh_mm_ss (zfill 8 (str_timedelta (elapsed (world a)))))"
proof -
  have "[1 ..< a + (max_retries cfg + 1 - a)] = [1 ..< a] @ [a ..< a + (max_retries cfg + 1 - a)]"
    using assms(1) by (rule upt_add_eq_append)
  moreover have "a + (max_retries cfg + 1 - a) = max_retries cfg + 1"
    using assms(2) by simp
  moreover have "[a ..< max_retries cfg + 1] = a # [Suc a ..< max_retries cfg + 1]"
    using assms(2) by (simp add: upt_conv_Cons)
  ultimately have range:
    "[1 ..< max_retries cfg + 1] = [1 ..< a] @ a # [Suc a ..< max_retries cfg + 1]"
    by simp
  note body = attempt_body_success [OF assms(4-8), of a]
  have run: "run_pipeline cfg world s0 =
     (SystemExit 0, s3,
      pre @ [Log Info Pipeline_Start, Log Info (Attempt_No a (max_retries cfg))] @
      xs1 @ xs2 @ xs3 @
      [Log Info (Pipeline_Done (zfill 8 (str_timedelta (elapsed (world a)))))])"
    unfolding run_pipeline_def range for_attempts_append
    using assms(3) body by (simp add: bind_io_def)
  show ?thesis
    using run by (simp add: zfill_str_timedelta is_hh_mm_ss_hh_mm_ss)
qed

theorem load_success_exits_zero_witness:
  "for_attempts cfg0 flaky [1 ..< 2] disk =
     (Returned (), disk,
      [Log Info Pipeline_Start, Log Info (Attempt_No 1 3),
       Call New_Manager True, Awaited 2, Call Connect_With_Fallback True,
       Log Error (Vpn_Failed ''no route''),
       Log Warning (Attempt_Failed 1 ConnectionError), Log Info (Waiting 10), Sleep 10]) \<and>
   elapsed (flaky 2) = 75 \<and>
   outcome_of (run_pipeline cfg0 flaky) disk = SystemExit 0 \<and>
   last (events (run_pipeline cfg0 flaky) disk) = Log Info (Pipeline_Done ''00:01:15'') \<and>
   is_hh_mm_ss ''00:01:15''"
proof -
  have f2: "flaky 2 = calm" by (simp add: flaky_def)
  have a: "(1::nat) \<le> 2" "2 \<le> max_retries cfg0" by (simp_all add: sample_defs)
  have v: "manage_vpn_connection cfg0 (flaky 2) disk =
     (Returned (Some True), disk,
      [Call New_Manager True, Awaited 2, Call Connect_With_Fallback True,
       Log Info (Vpn_Established ''vpn-a'')])"
    unfolding f2 by (rule run_vpn_calm)
  have t: "truthy (Some True)" by (simp add: truthy_def)
  have x: "extract_step (flaky 2) disk =
     (Returned (True, Some report), disk,
      [Call New_Scraper True, Log Info Extract_Start, Call Scraper_Execute True,
       Call Scraper_Close True])"
    unfolding f2 by (rule run_extract_calm)
  have l: "load_step cfg0 (flaky 2) (Some report) disk =
     (Returned True, disk\<lparr>files := []\<rparr>,
      [Log Info (Processing_Target ''CONSULTA_TLP_PCP_LP_FSP_CS_0411.xlsx''),
       Call (Read_Excel report) True, Log Info Excel_Processed, Log Info (Transform_Ok 1),
       Call Db_Open True, Log Info (Db_Connected ''sigitm''), Call Table_Exists True,
       Call Create_Table True, Log Info (Table_Created ''tb_lp_fsp''), Call Bulk_Insert True,
       Log Info (Load_Done ''tb_lp_fsp''), Call (Unlink report) True,
       Log Info (File_Removed (Some report)), Call Db_Close True])"
    unfolding f2 by (rule run_load_calm)
  have el: "elapsed (flaky 2) = 75" by (simp add: f2 calm_def)
  have d: "elapsed (flaky 2) div 86400 \<le> 999999999" by (simp add: el)
  have clock: "hh_mm_ss 75 = ''00:01:15''"
    by (simp add: hh_mm_ss_def two_digits_def digit_char_def)
  note main = load_success_exits_zero [OF a run_first_attempt_vpn_down v t x l d]
  have out: "outcome_of (run_pipeline cfg0 flaky) disk = SystemExit 0"
    using main by (simp add: run_defs)
  have line: "last (events (run_pipeline cfg0 flaky) disk) = Log Info (Pipeline_Done ''00:01:15'')"
    using main by (simp add: run_defs el clock)
  have shape: "is_hh_mm_ss ''00:01:15''"
    using main by (auto simp: el clock)
  show ?thesis
    using run_first_attempt_vpn_down el out line shape by (intro conjI)
qed

text \<open>
  C7 as the claim states it fails from 24 hours on: with 86400 seconds elapsed the
  process still exits with status 0, but the text logged is \<^verbatim>\<open>1 day, 0:00:00\<close>.
\<close>

theorem day_long_run_not_hh_mm_ss:
  "outcome_of (run_pipeline cfg0 (always day_long)) disk = SystemExit 0 \<and>
   last (events (run_pipeline cfg0 (always day_long)) disk) =
     Log Info (Pipeline_Done ''1 day, 0:00:00'') \<and>
   \<not> is_hh_mm_ss ''1 day, 0:00:00''"
  by (simp add: run_day_long is_hh_mm_ss_def)

text \<open>
  C8. The VPN adapter awaits \<^verbatim>\<open>connect_with_fallback\<close> for at most the switch timeout
  plus 10: no await of the adapter lasts longer, and when the connector is not back
  by then the await ends at exactly that time, the adapter logs at critical severity
  and returns \<^verbatim>\<open>False\<close>. Time is the time of the \<open>wait_for\<close> contract.
\<close>

theorem vpn_deadline:
  "(\<forall>d. Awaited d \<in> set (events (manage_vpn_connection cfg e) s) \<longrightarrow>
      d \<le> vpn_switch_timeout cfg + 10) \<and>
   (new_manager e = Inr () \<and>
    (connect_with_fallback e = Hangs \<or>
     (\<exists>d r. connect_with_fallback e = Finishes d r \<and> vpn_switch_timeout cfg + 10 < d)) \<longrightarrow>
    manage_vpn_connection cfg e s =
      (Returned (Some False), s,
       [Call New_Manager True, Awaited (vpn_switch_timeout cfg + 10),
        Abandoned Connect_With_Fallback, Log Critical Vpn_Timeout]))"
proof (intro conjI allI impI)
  fix d
  assume "Awaited d \<in> set (events (manage_vpn_connection cfg e) s)"
  then show "d \<le> vpn_switch_timeout cfg + 10"
    by (cases "new_manager e"; cases "connect_with_fallback e")
      (auto simp: manage_vpn_connection_def wait_for_def timed_out_def io_defs run_defs
        split: if_splits sum.splits)
next
  assume "new_manager e = Inr () \<and>
    (connect_with_fallback e = Hangs \<or>
     (\<exists>d r. connect_with_fallback e = Finishes d r \<and> vpn_switch_timeout cfg + 10 < d))"
  then show "manage_vpn_connection cfg e s =
      (Returned (Some False), s,
       [Call New_Manager True, Awaited (vpn_switch_timeout cfg + 10),
        Abandoned Connect_With_Fallback, Log Critical Vpn_Timeout])"
    by (auto simp: manage_vpn_connection_def wait_for_def timed_out_def io_defs)
qed

theorem vpn_deadline_witness:
  "new_manager vpn_hangs = Inr () \<and> connect_with_fallback vpn_hangs = Hangs \<and>
   vpn_switch_timeout cfg0 = 30 \<and>
   Awaited 40 \<in> set (events (manage_vpn_connection cfg0 vpn_hangs) disk) \<and>
   manage_vpn_connection cfg0 vpn_hangs disk =
     (Returned (Some False), disk,
      [Call New_Manager True, Awaited 40, Abandoned Connect_With_Fallback,
       Log Critical Vpn_Timeout])"
proof -
  have h: "new_manager vpn_hangs = Inr ()" "connect_with_fallback vpn_hangs = Hangs"
    "vpn_switch_timeout cfg0 = 30"
    by (simp_all add: sample_defs vpn_hangs_def)
  show ?thesis
    using vpn_deadline [of cfg0 vpn_hangs disk] h by (simp add: run_defs)
qed

text \<open>
  C9. Once the bulk insert has returned normally and the database session is
  released without an exception, \<^verbatim>\<open>_load_step\<close> returns \<^verbatim>\<open>True\<close> whatever the deletion of
  the artifact file does; a deletion that fails is logged as an error, leaves the
  files as they were and does not change the result.
\<close>

theorem deletion_failure_keeps_load:
  assumes "Call Bulk_Insert True \<in> set (events (load_step cfg e fp) s)"
    and "db_close e = Inr ()"
  shows "outcome_of (load_step cfg e fp) s = Returned True \<and>
         (\<forall>p. Call (Unlink p) False \<in> set (events (load_step cfg e fp) s) \<longrightarrow>
            (\<exists>x. Log Error (Remove_Error x) \<in> set (events (load_step cfg e fp) s)) \<and>
            files (state_after (load_step cfg e fp) s) = files s)"
proof (cases rule: load_step_cases [of cfg e fp s])
  case (no_handler x pre)
  then show ?thesis using assms(1) by (simp add: run_defs quiet_no_insert)
next
  case (transform_failed r s1 pre)
  then show ?thesis using assms(1) by (simp add: run_defs quiet_no_insert)
next
  case (persisted s1 pre post)
  let ?ys = "events (persist_phase cfg e fp) s1"
  have ev: "events (load_step cfg e fp) s = pre @ ?ys @ post"
    and st: "state_after (load_step cfg e fp) s = state_after (persist_phase cfg e fp) s1"
    and out: "outcome_of (load_step cfg e fp) s =
                Returned (outcome_of (persist_phase cfg e fp) s1 = Returned True)"
    using persisted(5) by (simp_all add: run_defs)
  have "Call Bulk_Insert True \<in> set ?ys"
    using assms(1) persisted(1,2) unfolding ev by (simp add: quiet_no_insert)
  then have "Call Bulk_Insert True
      \<in> set (events (with_db e (persist cfg e (handler0 e) fp)) s1)"
    by (simp add: persist_phase_def)
  note c = persist_phase_committed [OF this assms(2), folded persist_phase_def]
  have unl: "\<And>p. Call (Unlink p) False \<in> set (pre @ ?ys @ post) \<longleftrightarrow>
      Call (Unlink p) False \<in> set ?ys"
    using persisted(1,2) by (simp add: quiet_no_unlink_call)
  show ?thesis
    unfolding out st ev unl using c persisted(3) by auto
qed

theorem deletion_failure_keeps_load_witness:
  "Call Bulk_Insert True \<in> set (events (load_step cfg0 file_locked (Some report)) disk) \<and>
   db_close file_locked = Inr () \<and>
   Call (Unlink report) False \<in> set (events (load_step cfg0 file_locked (Some report)) disk) \<and>
   Log Error (Remove_Error (OtherError ''in use''))
     \<in> set (events (load_step cfg0 file_locked (Some report)) disk) \<and>
   outcome_of (load_step cfg0 file_locked (Some report)) disk = Returned True \<and>
   files (state_after (load_step cfg0 file_locked (Some report)) disk) = files disk"
proof -
  have i: "Call Bulk_Insert True \<in> set (events (load_step cfg0 file_locked (Some report)) disk)"
    by (simp add: run_load_file_locked run_defs)
  have c: "db_close file_locked = Inr ()" by (simp add: sample_defs file_locked_def)
  show ?thesis
    using deletion_failure_keeps_load [OF i c] c
    by (simp add: run_load_file_locked run_defs)
qed



end
